theory Spec2Isabelle
  imports Complex_Main "HOL-Library.Multiset"
begin

section \<open>Data model of server.js\<close>

text \<open>
  The backend keeps its documents in collections of a document store. A collection is
  modelled as the list of its documents in insertion order, an ObjectId as a natural
  number, a JavaScript Number as a real (the rounding of IEEE doubles is not modelled),
  and a Date as a natural number of milliseconds. Record fields carry the name of the
  schema field, prefixed with the model's name where two schemas share a field name.
\<close>

type_synonym oid = nat

record product =
  product_id :: oid
  product_name :: string
  product_description :: string
  product_price :: real
  product_image :: string
  product_category :: string
  product_inStock :: bool
  product_featured :: bool
  product_createdAt :: nat

record user =
  user_id :: oid
  user_name :: string
  user_email :: string
  user_password :: string
  user_isAdmin :: bool
  user_createdAt :: nat

record line_item =
  li_product :: oid
  li_quantity :: real

record address =
  street :: string
  city :: string
  state :: string
  zipCode :: string
  country :: string

record order =
  order_id :: oid
  order_user :: oid
  order_products :: "line_item list"
  totalAmount :: real
  shippingAddress :: address
  paymentMethod :: string
  paymentStatus :: string
  orderStatus :: string
  order_createdAt :: nat

record subscriber =
  subscriber_id :: oid
  subscriber_email :: string
  subscriber_active :: bool
  subscriber_createdAt :: nat

record store =
  products :: "product list"
  users :: "user list"
  orders :: "order list"
  subscribers :: "subscriber list"

text \<open>
  The libraries the routes call (bcryptjs, jsonwebtoken) and the clock are parameters of
  the model. \<open>bcrypt_genSalt\<close> is the salt drawn for the request at hand, \<open>jwt_sign\<close>
  signs the payload \<open>{ userId }\<close> with the server's secret and a seven day expiry, and
  \<open>jwt_verify\<close> gives the \<open>userId\<close> of a token that verifies under that secret and has
  not expired, or \<open>None\<close> where \<open>jwt.verify\<close> throws. \<open>bcrypt_hash\<close> and
  \<open>bcrypt_compare\<close> are what bcryptjs computes when both of its arguments are strings.
\<close>

record env =
  bcrypt_genSalt :: string
  bcrypt_hash :: "string \<Rightarrow> string \<Rightarrow> string"
  bcrypt_compare :: "string \<Rightarrow> string \<Rightarrow> bool"
  jwt_sign :: "oid \<Rightarrow> string"
  jwt_verify :: "string \<Rightarrow> oid option"
  now :: nat

subsection \<open>Responses\<close>

text \<open>
  A handler's \<open>catch\<close> block answers with \<open>error.message\<close>; the errors that can be
  thrown are a datatype, so that each such answer is a value of the model. The text of
  a message is not modelled, except that bcryptjs names the types of its two arguments
  (\<open>Illegal arguments: undefined, string\<close>) and \<open>IllegalArguments\<close> carries them.
\<close>

datatype js_error =
    TypeError
  | ValidationError
  | DuplicateKeyError
  | IllegalArguments string string

text \<open>
  A field of a parsed request body that a route hands to a library as it is: it may be
  missing (\<open>undefined\<close>), a string, or a value of another type; \<open>JObject\<close> stands
  for \<open>null\<close>, arrays and objects, whose \<open>typeof\<close> is \<open>object\<close>.
\<close>

datatype js_value =
    JUndefined
  | JString string
  | JNumber real
  | JBoolean bool
  | JObject

fun typeof :: "js_value \<Rightarrow> string" where
  "typeof JUndefined = ''undefined''"
| "typeof (JString x) = ''string''"
| "typeof (JNumber x) = ''number''"
| "typeof (JBoolean x) = ''boolean''"
| "typeof JObject = ''object''"

record public_user =
  pu_id :: oid
  pu_name :: string
  pu_email :: string
  pu_isAdmin :: bool

record user_summary =
  us_id :: oid
  us_name :: string
  us_email :: string

record product_summary =
  ps_id :: oid
  ps_name :: string
  ps_price :: real

text \<open>
  An order after \<open>.populate('user', 'name email').populate('products.product', 'name price')\<close>:
  the stored document, and for each populated path the summary of the document the
  reference resolves to, or \<open>None\<close> (JavaScript \<open>null\<close>) where it resolves to nothing.
\<close>

record populated_order =
  po_doc :: order
  po_user :: "user_summary option"
  po_products :: "product_summary option list"

datatype body =
    Message string
  | ErrorMessage js_error
  | AuthBody string public_user
  | OrderBody order
  | PopulatedOrderBody populated_order

record response =
  status :: nat
  body :: body

definition json :: "nat \<Rightarrow> body \<Rightarrow> response" where
  "json code b = \<lparr>status = code, body = b\<rparr>"

subsection \<open>Queries\<close>

fun findOne :: "('a \<Rightarrow> bool) \<Rightarrow> 'a list \<Rightarrow> 'a option" where
  "findOne p [] = None"
| "findOne p (d # ds) = (if p d then Some d else findOne p ds)"

definition User_findById :: "store \<Rightarrow> oid \<Rightarrow> user option" where
  "User_findById s i = findOne (\<lambda>u. user_id u = i) (users s)"

definition User_findOne_email :: "store \<Rightarrow> string \<Rightarrow> user option" where
  "User_findOne_email s e = findOne (\<lambda>u. user_email u = e) (users s)"

definition Product_findById :: "store \<Rightarrow> oid \<Rightarrow> product option" where
  "Product_findById s i = findOne (\<lambda>p. product_id p = i) (products s)"

definition Order_findById :: "store \<Rightarrow> oid \<Rightarrow> order option" where
  "Order_findById s i = findOne (\<lambda>d. order_id d = i) (orders s)"

definition Subscriber_findOne_email :: "store \<Rightarrow> string \<Rightarrow> subscriber option" where
  "Subscriber_findOne_email s e = findOne (\<lambda>d. subscriber_email d = e) (subscribers s)"

text \<open>
  \<open>bcrypt.hash(s, salt)\<close> with a string salt and \<open>bcrypt.compare(s, hash)\<close> with a
  string hash, as the routes call them: both fail with \<open>Illegal arguments\<close> unless
  \<open>s\<close> is a string. \<open>Inl\<close> is the error the promise rejects with.
\<close>

definition bcryptjs_hash :: "env \<Rightarrow> js_value \<Rightarrow> string \<Rightarrow> js_error + string" where
  "bcryptjs_hash e s salt =
     (case s of
        JString p \<Rightarrow> Inr (bcrypt_hash e p salt)
      | _ \<Rightarrow> Inl (IllegalArguments (typeof s) ''string''))"

definition bcryptjs_compare :: "env \<Rightarrow> js_value \<Rightarrow> string \<Rightarrow> js_error + bool" where
  "bcryptjs_compare e s hash =
     (case s of
        JString p \<Rightarrow> Inr (bcrypt_compare e p hash)
      | _ \<Rightarrow> Inl (IllegalArguments (typeof s) ''string''))"

text \<open>
  A new document gets an ObjectId that no document of its collection has.
\<close>

definition new_ObjectId :: "oid list \<Rightarrow> oid" where
  "new_ObjectId ids = Suc (fold max ids 0)"

section \<open>Access-control middleware\<close>

text \<open>
  \<open>String.prototype.replace\<close> with a string pattern replaces the first occurrence of
  the pattern and leaves the rest of the string as it is.
\<close>

fun js_replace :: "string \<Rightarrow> string \<Rightarrow> string \<Rightarrow> string" where
  "js_replace pat rep [] = (if pat = [] then rep else [])"
| "js_replace pat rep (c # cs) =
     (if take (length pat) (c # cs) = pat then rep @ drop (length pat) (c # cs)
      else c # js_replace pat rep cs)"

text \<open>
  \<open>auth\<close>: the argument is the value of the Authorization header, if the request has
  one. \<open>Inl\<close> is the response that ends the request, \<open>Inr\<close> the user attached to
  \<open>req.user\<close> when \<open>next()\<close> is called.
\<close>

definition auth :: "env \<Rightarrow> store \<Rightarrow> string option \<Rightarrow> response + user" where
  "auth e s header =
     (let token = map_option (js_replace ''Bearer '' '''') header in
      case token of
        None \<Rightarrow> Inl (json 401 (Message ''Authentication required''))
      | Some t \<Rightarrow>
          if t = '''' then Inl (json 401 (Message ''Authentication required''))
          else (case jwt_verify e t of
                  None \<Rightarrow> Inl (json 401 (Message ''Authentication failed''))
                | Some decoded_userId \<Rightarrow>
                    (case User_findById s decoded_userId of
                       None \<Rightarrow> Inl (json 401 (Message ''User not found''))
                     | Some u \<Rightarrow> Inr u)))"

text \<open>
  \<open>adminAuth\<close>: the argument is \<open>req.user\<close>, which is undefined (\<open>None\<close>) when no
  middleware has set it.
\<close>

definition adminAuth :: "user option \<Rightarrow> response + unit" where
  "adminAuth req_user =
     (if (case req_user of None \<Rightarrow> False | Some u \<Rightarrow> user_isAdmin u) then Inr ()
      else Inl (json 403 (Message ''Admin access required'')))"

section \<open>Saving documents\<close>

text \<open>
  \<open>save()\<close> of a new document runs the schema's validators and then inserts. The
  \<open>required\<close> validator of a String path rejects the empty string. A unique index
  (\<open>unique: true\<close>) makes the insert fail with a duplicate key error. The result is the
  thrown error or the store after the insert. \<open>validate_user\<close>,
  \<open>validate_subscriber\<close> and \<open>validate_order\<close> hold when every required path has a
  value; which paths the message of a validation error lists, and in which order, is not
  modelled.
\<close>

definition validate_user :: "user \<Rightarrow> bool" where
  "validate_user u \<longleftrightarrow> user_name u \<noteq> '''' \<and> user_email u \<noteq> '''' \<and> user_password u \<noteq> ''''"

definition User_save_new :: "store \<Rightarrow> user \<Rightarrow> js_error + store" where
  "User_save_new s u =
     (if \<not> validate_user u then Inl ValidationError
      else if User_findOne_email s (user_email u) \<noteq> None then Inl DuplicateKeyError
      else Inr (s\<lparr>users := users s @ [u]\<rparr>))"

definition validate_subscriber :: "subscriber \<Rightarrow> bool" where
  "validate_subscriber d \<longleftrightarrow> subscriber_email d \<noteq> ''''"

definition Subscriber_save_new :: "store \<Rightarrow> subscriber \<Rightarrow> js_error + store" where
  "Subscriber_save_new s d =
     (if \<not> validate_subscriber d then Inl ValidationError
      else if Subscriber_findOne_email s (subscriber_email d) \<noteq> None
        then Inl DuplicateKeyError
      else Inr (s\<lparr>subscribers := subscribers s @ [d]\<rparr>))"

text \<open>
  \<open>save()\<close> of a document that was read from the store updates, in the document with
  that \<open>_id\<close>, the paths that were assigned: \<open>updateOne\<close> changes the first document
  that matches the filter.
\<close>

fun updateOne :: "('a \<Rightarrow> bool) \<Rightarrow> ('a \<Rightarrow> 'a) \<Rightarrow> 'a list \<Rightarrow> 'a list" where
  "updateOne p f [] = []"
| "updateOne p f (d # ds) = (if p d then f d # ds else d # updateOne p f ds)"

definition Subscriber_save_active :: "store \<Rightarrow> subscriber \<Rightarrow> bool \<Rightarrow> store" where
  "Subscriber_save_active s doc a =
     s\<lparr>subscribers :=
         updateOne (\<lambda>d. subscriber_id d = subscriber_id doc)
           (\<lambda>d. d\<lparr>subscriber_active := a\<rparr>) (subscribers s)\<rparr>"

text \<open>
  The body of an order request, as far as the Order schema reads it. Every field may be
  missing; a String path that is missing is the empty string here, since \<open>required\<close>
  rejects both alike. \<open>ob_user\<close> is the \<open>user\<close> field of the body.
\<close>

record line_item_body =
  lib_product :: "oid option"
  lib_quantity :: "real option"

record order_body =
  ob_user :: "oid option"
  ob_products :: "line_item_body list"
  ob_totalAmount :: "real option"
  ob_shippingAddress :: address
  ob_paymentMethod :: string
  ob_paymentStatus :: "string option"
  ob_orderStatus :: "string option"

definition validate_order :: "order_body \<Rightarrow> bool" where
  "validate_order b \<longleftrightarrow>
     ob_user b \<noteq> None \<and>
     \<not> list_ex (\<lambda>li. lib_product li = None) (ob_products b) \<and>
     ob_totalAmount b \<noteq> None \<and>
     street (ob_shippingAddress b) \<noteq> '''' \<and>
     city (ob_shippingAddress b) \<noteq> '''' \<and>
     state (ob_shippingAddress b) \<noteq> '''' \<and>
     zipCode (ob_shippingAddress b) \<noteq> '''' \<and>
     country (ob_shippingAddress b) \<noteq> '''' \<and>
     ob_paymentMethod b \<noteq> ''''"

definition cast_line_item :: "line_item_body \<Rightarrow> line_item option" where
  "cast_line_item li =
     (case lib_product li of
        None \<Rightarrow> None
      | Some p \<Rightarrow>
          Some \<lparr>li_product = p,
                li_quantity = (case lib_quantity li of None \<Rightarrow> 1 | Some q \<Rightarrow> q)\<rparr>)"

fun cast_line_items :: "line_item_body list \<Rightarrow> line_item list option" where
  "cast_line_items [] = Some []"
| "cast_line_items (li # lis) =
     (case cast_line_item li of
        None \<Rightarrow> None
      | Some x \<Rightarrow> (case cast_line_items lis of None \<Rightarrow> None | Some xs \<Rightarrow> Some (x # xs)))"

text \<open>
  \<open>new Order(fields)\<close> followed by \<open>save()\<close>: the schema defaults fill \<open>quantity\<close>,
  \<open>paymentStatus\<close>, \<open>orderStatus\<close> and \<open>createdAt\<close>; a required path that is missing
  makes \<open>save()\<close> throw and nothing is inserted.
\<close>

definition Order_save_new :: "env \<Rightarrow> store \<Rightarrow> order_body \<Rightarrow> js_error + order \<times> store" where
  "Order_save_new e s b =
     (case ob_user b of
        None \<Rightarrow> Inl ValidationError
      | Some u \<Rightarrow>
     (case ob_totalAmount b of
        None \<Rightarrow> Inl ValidationError
      | Some amount \<Rightarrow>
     (case cast_line_items (ob_products b) of
        None \<Rightarrow> Inl ValidationError
      | Some items \<Rightarrow>
          if \<not> validate_order b then Inl ValidationError
          else
            (let d = \<lparr>order_id = new_ObjectId (map order_id (orders s)),
                      order_user = u,
                      order_products = items,
                      totalAmount = amount,
                      shippingAddress = ob_shippingAddress b,
                      paymentMethod = ob_paymentMethod b,
                      paymentStatus =
                        (case ob_paymentStatus b of None \<Rightarrow> ''pending'' | Some x \<Rightarrow> x),
                      orderStatus =
                        (case ob_orderStatus b of None \<Rightarrow> ''processing'' | Some x \<Rightarrow> x),
                      order_createdAt = now e\<rparr>
             in Inr (d, s\<lparr>orders := orders s @ [d]\<rparr>)))))"

section \<open>Routes\<close>

text \<open>
  A route that writes returns the response and the store after the request. The name
  and the email that a route reads from \<open>req.body\<close> are strings, a missing one being
  the empty string, which \<open>required\<close> rejects alike. The password goes to bcryptjs
  as the body has it, so it is a \<open>js_value\<close>.
\<close>

subsection \<open>Authentication\<close>

record register_body =
  rb_name :: string
  rb_email :: string
  rb_password :: js_value

definition public_view :: "user \<Rightarrow> public_user" where
  "public_view u =
     \<lparr>pu_id = user_id u, pu_name = user_name u, pu_email = user_email u,
      pu_isAdmin = user_isAdmin u\<rparr>"

text \<open>
  \<open>POST /api/auth/register\<close>. Every step is inside the handler's \<open>try\<close>; whatever
  throws, \<open>bcrypt.hash\<close> or \<open>save()\<close>, is answered by the \<open>catch\<close> block with 400
  and nothing is stored.
\<close>

definition register :: "env \<Rightarrow> store \<Rightarrow> register_body \<Rightarrow> response \<times> store" where
  "register e s b =
     (case User_findOne_email s (rb_email b) of
        Some existingUser \<Rightarrow> (json 400 (Message ''User already exists''), s)
      | None \<Rightarrow>
          (let salt = bcrypt_genSalt e in
           case bcryptjs_hash e (rb_password b) salt of
             Inl err \<Rightarrow> (json 400 (ErrorMessage err), s)
           | Inr hashedPassword \<Rightarrow>
               (let u = \<lparr>user_id = new_ObjectId (map user_id (users s)),
                         user_name = rb_name b,
                         user_email = rb_email b,
                         user_password = hashedPassword,
                         user_isAdmin = False,
                         user_createdAt = now e\<rparr>
                in case User_save_new s u of
                     Inl err \<Rightarrow> (json 400 (ErrorMessage err), s)
                   | Inr s' \<Rightarrow>
                       (json 201 (AuthBody (jwt_sign e (user_id u)) (public_view u)), s'))))"

record login_body =
  lb_email :: string
  lb_password :: js_value

text \<open>
  \<open>POST /api/auth/login\<close>. \<open>bcrypt.compare\<close> is called only when a User was found;
  when it throws, the \<open>catch\<close> block answers 500 with the error's message.
\<close>

definition login :: "env \<Rightarrow> store \<Rightarrow> login_body \<Rightarrow> response" where
  "login e s b =
     (case User_findOne_email s (lb_email b) of
        None \<Rightarrow> json 400 (Message ''Invalid credentials'')
      | Some u \<Rightarrow>
          (case bcryptjs_compare e (lb_password b) (user_password u) of
             Inl err \<Rightarrow> json 500 (ErrorMessage err)
           | Inr isMatch \<Rightarrow>
               if \<not> isMatch then json 400 (Message ''Invalid credentials'')
               else json 200 (AuthBody (jwt_sign e (user_id u)) (public_view u))))"

subsection \<open>Orders\<close>

text \<open>
  \<open>POST /api/orders\<close> behind \<open>auth\<close>: \<open>req_user\<close> is the user that \<open>auth\<close> attached.
  The object \<open>{ ...req.body, user: req.user._id }\<close> is the body with its \<open>user\<close> field
  overwritten.
\<close>

definition create_order :: "env \<Rightarrow> store \<Rightarrow> user \<Rightarrow> order_body \<Rightarrow> response \<times> store" where
  "create_order e s req_user b =
     (case Order_save_new e s (b\<lparr>ob_user := Some (user_id req_user)\<rparr>) of
        Inl err \<Rightarrow> (json 400 (ErrorMessage err), s)
      | Inr (d, s') \<Rightarrow> (json 201 (OrderBody d), s'))"

definition populate_user :: "store \<Rightarrow> oid \<Rightarrow> user_summary option" where
  "populate_user s i =
     map_option (\<lambda>u. \<lparr>us_id = user_id u, us_name = user_name u, us_email = user_email u\<rparr>)
       (User_findById s i)"

definition populate_product :: "store \<Rightarrow> oid \<Rightarrow> product_summary option" where
  "populate_product s i =
     map_option (\<lambda>p. \<lparr>ps_id = product_id p, ps_name = product_name p, ps_price = product_price p\<rparr>)
       (Product_findById s i)"

definition populate_order :: "store \<Rightarrow> order \<Rightarrow> populated_order" where
  "populate_order s d =
     \<lparr>po_doc = d, po_user = populate_user s (order_user d),
      po_products = map (\<lambda>li. populate_product s (li_product li)) (order_products d)\<rparr>"

text \<open>
  \<open>GET /api/orders/:id\<close> behind \<open>auth\<close>. The condition
  \<open>!req.user.isAdmin && !order.user._id.equals(req.user._id)\<close> reads \<open>order.user._id\<close>
  only when the requester is not an admin; where the populated \<open>order.user\<close> is
  \<open>null\<close> that read throws a TypeError, which the \<open>catch\<close> block answers with 500.
\<close>

definition get_order :: "store \<Rightarrow> user \<Rightarrow> oid \<Rightarrow> response" where
  "get_order s req_user i =
     (case map_option (populate_order s) (Order_findById s i) of
        None \<Rightarrow> json 404 (Message ''Order not found'')
      | Some ord \<Rightarrow>
          if \<not> user_isAdmin req_user then
            (case po_user ord of
               None \<Rightarrow> json 500 (ErrorMessage TypeError)
             | Some owner \<Rightarrow>
                 if \<not> (us_id owner = user_id req_user) then json 403 (Message ''Not authorized'')
                 else json 200 (PopulatedOrderBody ord))
          else json 200 (PopulatedOrderBody ord))"

subsection \<open>Routes behind their gates\<close>

text \<open>
  \<open>app.post('/api/orders', auth, ...)\<close> and \<open>app.get('/api/orders/:id', auth, ...)\<close>:
  the gate runs first and the handler only when the gate called \<open>next()\<close>.
\<close>

definition post_orders :: "env \<Rightarrow> store \<Rightarrow> string option \<Rightarrow> order_body \<Rightarrow> response \<times> store" where
  "post_orders e s header b =
     (case auth e s header of
        Inl r \<Rightarrow> (r, s)
      | Inr req_user \<Rightarrow> create_order e s req_user b)"

definition get_orders_id :: "env \<Rightarrow> store \<Rightarrow> string option \<Rightarrow> oid \<Rightarrow> response" where
  "get_orders_id e s header i =
     (case auth e s header of
        Inl r \<Rightarrow> r
      | Inr req_user \<Rightarrow> get_order s req_user i)"

subsection \<open>Newsletter\<close>

definition subscribe :: "env \<Rightarrow> store \<Rightarrow> string \<Rightarrow> response \<times> store" where
  "subscribe e s email =
     (case Subscriber_findOne_email s email of
        Some existingSubscriber \<Rightarrow>
          if subscriber_active existingSubscriber
          then (json 400 (Message ''Email already subscribed''), s)
          else (json 200 (Message ''Subscription reactivated successfully''),
                Subscriber_save_active s existingSubscriber True)
      | None \<Rightarrow>
          (let d = \<lparr>subscriber_id = new_ObjectId (map subscriber_id (subscribers s)),
                    subscriber_email = email,
                    subscriber_active = True,
                    subscriber_createdAt = now e\<rparr>
           in case Subscriber_save_new s d of
                Inl err \<Rightarrow> (json 400 (ErrorMessage err), s)
              | Inr s' \<Rightarrow> (json 201 (Message ''Subscribed successfully''), s')))"

definition unsubscribe :: "store \<Rightarrow> string \<Rightarrow> response \<times> store" where
  "unsubscribe s email =
     (case Subscriber_findOne_email s email of
        None \<Rightarrow> (json 404 (Message ''Subscription not found''), s)
      | Some d \<Rightarrow>
          (json 200 (Message ''Unsubscribed successfully''), Subscriber_save_active s d False))"

subsection \<open>Dashboard\<close>

text \<open>
  The revenue part of \<open>GET /api/admin/dashboard\<close>: the orders found with the filter
  \<open>{ paymentStatus: 'completed' }\<close>, reduced from the left starting at 0.
\<close>

definition Order_find_paymentStatus :: "store \<Rightarrow> string \<Rightarrow> order list" where
  "Order_find_paymentStatus s v = filter (\<lambda>d. paymentStatus d = v) (orders s)"

definition totalRevenue :: "store \<Rightarrow> real" where
  "totalRevenue s =
     (let allOrders = Order_find_paymentStatus s ''completed''
      in foldl (\<lambda>sum d. sum + totalAmount d) 0 allOrders)"

text \<open>
  The aggregation pipeline behind \<open>popularProducts\<close>, stage by stage. \<open>$unwind\<close> gives
  one document for each line item of each order; \<open>$group\<close> gives one document for each
  product reference, with the sum of the quantities of its line items. The store does
  not say in which order \<open>$group\<close> hands its documents on, nor how \<open>$sort\<close> orders
  documents with equal keys: the order in which the groups reach a stable sort is the
  parameter \<open>engine_order\<close> of the pipeline.
\<close>

record group_doc =
  g_id :: oid
  g_count :: real

definition unwind_products :: "order list \<Rightarrow> line_item list" where
  "unwind_products ds = concat (map order_products ds)"

definition group_products :: "line_item list \<Rightarrow> group_doc list" where
  "group_products items =
     map (\<lambda>p. \<lparr>g_id = p,
               g_count = sum_list (map li_quantity (filter (\<lambda>li. li_product li = p) items))\<rparr>)
       (remdups (map li_product items))"

definition sort_count_desc :: "group_doc list \<Rightarrow> group_doc list" where
  "sort_count_desc gs = sort_key (\<lambda>g. - g_count g) gs"

definition popularProducts :: "(group_doc list \<Rightarrow> group_doc list) \<Rightarrow> store \<Rightarrow> group_doc list" where
  "popularProducts engine_order s =
     take 5 (sort_count_desc (engine_order (group_products (unwind_products (orders s)))))"

record popular_item =
  pi_product :: "product_summary option"
  pi_count :: real

definition populatedPopularProducts ::
    "(group_doc list \<Rightarrow> group_doc list) \<Rightarrow> store \<Rightarrow> popular_item list" where
  "populatedPopularProducts engine_order s =
     map (\<lambda>item. \<lparr>pi_product = populate_product s (g_id item), pi_count = g_count item\<rparr>)
       (popularProducts engine_order s)"

text \<open>
  The cumulative ordered quantity of a product in the words of the specification: the
  quantities of its line items, summed over every line item of every order.
\<close>

definition ordered_quantity :: "store \<Rightarrow> oid \<Rightarrow> real" where
  "ordered_quantity s p =
     (\<Sum>d\<leftarrow>orders s. \<Sum>li\<leftarrow>order_products d. if li_product li = p then li_quantity li else 0)"

section \<open>Example environment and documents\<close>

text \<open>
  A small environment on which the functions can be evaluated: a hash that writes the
  salt in front of the reversed password, and tokens that spell out the user id.
\<close>

definition toy_hash :: "string \<Rightarrow> string \<Rightarrow> string" where
  "toy_hash p salt = salt @ ''$'' @ rev p"

definition toy_compare :: "string \<Rightarrow> string \<Rightarrow> bool" where
  "toy_compare p h = (toy_hash p (takeWhile (\<lambda>c. c \<noteq> CHR ''$'') h) = h)"

definition toy_sign :: "oid \<Rightarrow> string" where
  "toy_sign i = ''tok'' @ replicate i (CHR ''i'')"

definition toy_verify :: "string \<Rightarrow> oid option" where
  "toy_verify t =
     (if take 3 t = ''tok'' \<and> drop 3 t = replicate (length t - 3) (CHR ''i'')
      then Some (length t - 3) else None)"

definition env0 :: env where
  "env0 = \<lparr>bcrypt_genSalt = ''s1'', bcrypt_hash = toy_hash, bcrypt_compare = toy_compare,
           jwt_sign = toy_sign, jwt_verify = toy_verify, now = 1000\<rparr>"

definition alice :: user where
  "alice = \<lparr>user_id = 1, user_name = ''Alice'', user_email = ''alice@x.com'',
            user_password = ''s0$ecila'', user_isAdmin = False, user_createdAt = 10\<rparr>"

definition bob :: user where
  "bob = \<lparr>user_id = 2, user_name = ''Bob'', user_email = ''bob@x.com'',
          user_password = ''s0$bob'', user_isAdmin = False, user_createdAt = 20\<rparr>"

definition root :: user where
  "root = \<lparr>user_id = 3, user_name = ''Root'', user_email = ''root@x.com'',
           user_password = ''s0$toor'', user_isAdmin = True, user_createdAt = 30\<rparr>"

definition empty_store :: store where
  "empty_store = \<lparr>products = [], users = [], orders = [], subscribers = []\<rparr>"

definition addr0 :: address where
  "addr0 = \<lparr>street = ''1 Farm Rd'', city = ''Bogor'', state = ''JB'', zipCode = ''16000'',
            country = ''ID''\<rparr>"

definition order_body0 :: order_body where
  "order_body0 =
     \<lparr>ob_user = Some 2,
      ob_products = [\<lparr>lib_product = Some 7, lib_quantity = None\<rparr>],
      ob_totalAmount = Some 12,
      ob_shippingAddress = addr0,
      ob_paymentMethod = ''card'',
      ob_paymentStatus = None,
      ob_orderStatus = None\<rparr>"

definition mk_order :: "oid \<Rightarrow> oid \<Rightarrow> line_item list \<Rightarrow> real \<Rightarrow> string \<Rightarrow> order" where
  "mk_order i u items amount pstatus =
     \<lparr>order_id = i, order_user = u, order_products = items, totalAmount = amount,
      shippingAddress = addr0, paymentMethod = ''card'', paymentStatus = pstatus,
      orderStatus = ''processing'', order_createdAt = 50\<rparr>"

definition mixed_orders :: "order list" where
  "mixed_orders =
     [mk_order 1 1 [] 10 ''completed'', mk_order 2 1 [] 7 ''pending'',
      mk_order 3 2 [] 20 ''completed'']"

definition orphan_store :: store where
  "orphan_store = empty_store\<lparr>users := [bob], orders := [mk_order 10 1 [] 5 ''pending'']\<rparr>"

definition sub_a :: subscriber where
  "sub_a = \<lparr>subscriber_id = 1, subscriber_email = ''a@x.com'', subscriber_active = True,
            subscriber_createdAt = 5\<rparr>"

definition sub_b :: subscriber where
  "sub_b = \<lparr>subscriber_id = 2, subscriber_email = ''b@x.com'', subscriber_active = False,
            subscriber_createdAt = 6\<rparr>"

definition item :: "oid \<Rightarrow> real \<Rightarrow> line_item" where
  "item p q = \<lparr>li_product = p, li_quantity = q\<rparr>"

definition tie_store :: store where
  "tie_store = empty_store\<lparr>orders :=
     [mk_order 1 1 [item 1 3, item 2 5] 8 ''pending'',
      mk_order 2 2 [item 1 2] 2 ''completed'']\<rparr>"

definition busy_store :: store where
  "busy_store = empty_store\<lparr>orders :=
     [mk_order 1 1 [item 1 1, item 2 2, item 3 3] 6 ''pending'',
      mk_order 2 2 [item 4 4, item 5 5, item 6 6, item 2 1] 16 ''completed'']\<rparr>"

section \<open>Properties of the middleware\<close>

text \<open>
  C3. A request whose bearer token verifies (well formed, correctly signed, not expired)
  but whose user id resolves to no stored User is answered by \<open>auth\<close> with status 401;
  the handler behind the gate is not reached and no error escapes.
\<close>

theorem auth_deleted_user_unauthenticated:
  assumes "js_replace ''Bearer '' '''' h = t" and "t \<noteq> ''''"
    and "jwt_verify e t = Some uid" and "User_findById s uid = None"
  shows "auth e s (Some h) = Inl (json 401 (Message ''User not found''))"
  using assms by (simp add: auth_def)

theorem auth_deleted_user_unauthenticated_witness:
  "js_replace ''Bearer '' '''' ''Bearer tokii'' = ''tokii'' \<and> ''tokii'' \<noteq> '''' \<and>
   jwt_verify env0 ''tokii'' = Some 2 \<and>
   User_findById (empty_store\<lparr>users := [alice]\<rparr>) 2 = None \<and>
   auth env0 (empty_store\<lparr>users := [alice]\<rparr>) (Some ''Bearer tokii'')
     = Inl (json 401 (Message ''User not found''))"
proof -
  have a: "js_replace ''Bearer '' '''' ''Bearer tokii'' = ''tokii''" by simp
  have b: "''tokii'' \<noteq> ''''" by simp
  have c: "jwt_verify env0 ''tokii'' = Some 2" by (simp add: env0_def toy_verify_def)
  have d: "User_findById (empty_store\<lparr>users := [alice]\<rparr>) 2 = None"
    by (simp add: User_findById_def empty_store_def alice_def)
  from auth_deleted_user_unauthenticated [OF a b c d] a b c d show ?thesis by simp
qed

text \<open>
  C9. When no user is attached to the request, \<open>adminAuth\<close> answers 403 and does not
  read a field of the missing user.
\<close>

theorem adminAuth_without_user_forbidden:
  "adminAuth None = Inl (json 403 (Message ''Admin access required''))"
  by (simp add: adminAuth_def)

section \<open>Lemmas about queries and updates\<close>

lemma findOne_Some: "findOne p xs = Some d \<Longrightarrow> d \<in> set xs \<and> p d"
  by (induction xs) (auto split: if_splits)

lemma findOne_None: "findOne p xs = None \<longleftrightarrow> (\<forall>x\<in>set xs. \<not> p x)"
  by (induction xs) auto

lemma fold_max_ge_init: "(a::nat) \<le> fold max ids a"
  by (induction ids arbitrary: a) (auto intro: le_trans [OF max.cobounded2])

lemma fold_max_ge_elem: "x \<in> set ids \<Longrightarrow> (x::nat) \<le> fold max ids a"
proof (induction ids arbitrary: a)
  case Nil
  then show ?case by simp
next
  case (Cons y ys)
  show ?case
  proof (cases "x = y")
    case True
    have "y \<le> max y a" by simp
    also have "\<dots> \<le> fold max ys (max y a)" by (rule fold_max_ge_init)
    finally show ?thesis using True by simp
  next
    case False
    with Cons show ?thesis by simp
  qed
qed

lemma new_ObjectId_fresh: "new_ObjectId ids \<notin> set ids"
proof
  assume "new_ObjectId ids \<in> set ids"
  then have "new_ObjectId ids \<le> fold max ids 0" by (rule fold_max_ge_elem)
  then show False by (simp add: new_ObjectId_def)
qed

lemma length_updateOne: "length (updateOne p f xs) = length xs"
  by (induction xs) auto

lemma updateOne_distinct_key:
  "distinct (map k xs) \<Longrightarrow>
   updateOne (\<lambda>x. k x = c) f xs = map (\<lambda>x. if k x = c then f x else x) xs"
proof (induction xs)
  case Nil
  then show ?case by simp
next
  case (Cons x xs)
  show ?case
  proof (cases "k x = c")
    case True
    with Cons.prems have "\<forall>y\<in>set xs. k y \<noteq> c" by (auto simp: image_iff)
    then have "map (\<lambda>x. if k x = c then f x else x) xs = xs"
      by (simp add: map_idI)
    with True show ?thesis by simp
  next
    case False
    with Cons show ?thesis by simp
  qed
qed

lemma findOne_updateOne_key:
  assumes "distinct (map k xs)" and "findOne p xs = Some d"
    and "\<And>x. p (f x) = p x"
  shows "findOne p (updateOne (\<lambda>x. k x = k d) f xs) = Some (f d)"
  using assms(1,2)
proof (induction xs)
  case Nil
  then show ?case by simp
next
  case (Cons x xs)
  show ?case
  proof (cases "p x")
    case True
    with Cons.prems have "d = x" by simp
    with True assms(3) show ?thesis by simp
  next
    case False
    with Cons.prems have f: "findOne p xs = Some d" by simp
    then have "d \<in> set xs" by (simp add: findOne_Some)
    with Cons.prems have "k x \<noteq> k d" by (auto simp: image_iff)
    with False Cons f assms(3) show ?thesis by simp
  qed
qed

lemma updateOne_idem:
  assumes "\<And>x. f (f x) = f x" and "\<And>x. p (f x) = p x"
  shows "updateOne p f (updateOne p f xs) = updateOne p f xs"
  by (induction xs) (auto simp: assms)

lemma map_key_updateOne:
  assumes "\<And>x. k (f x) = k x"
  shows "map k (updateOne p f xs) = map k xs"
  by (induction xs) (auto simp: assms)

section \<open>Properties of the authentication routes\<close>

text \<open>
  C2. A login attempt with an email that no stored User has and a login attempt with a
  stored User's email and a password that does not pass the hash comparison are to get
  the same status and message, so that the response does not tell which check failed.
  With no password in the body they do not: the unknown email is answered 400
  \<open>Invalid credentials\<close> before the password is looked at, while for the stored email
  \<open>bcrypt.compare\<close> throws and the \<open>catch\<close> block answers 500 with the message of
  that error.
\<close>

theorem login_missing_password_reveals_email:
  "User_findOne_email (empty_store\<lparr>users := [alice]\<rparr>) ''nobody@x.com'' = None \<and>
   User_findOne_email (empty_store\<lparr>users := [alice]\<rparr>) ''alice@x.com'' = Some alice \<and>
   login env0 (empty_store\<lparr>users := [alice]\<rparr>)
       \<lparr>lb_email = ''nobody@x.com'', lb_password = JUndefined\<rparr>
     = json 400 (Message ''Invalid credentials'') \<and>
   login env0 (empty_store\<lparr>users := [alice]\<rparr>)
       \<lparr>lb_email = ''alice@x.com'', lb_password = JUndefined\<rparr>
     = json 500 (ErrorMessage (IllegalArguments ''undefined'' ''string''))"
  by (simp add: login_def User_findOne_email_def empty_store_def alice_def bcryptjs_compare_def)

text \<open>
  All outcomes of \<open>login\<close>. Where the password is a string that the comparison
  rejects, the response is the one an unknown email gets.
\<close>

lemma login_cases:
  "login e s b =
     (case User_findOne_email s (lb_email b) of
        None \<Rightarrow> json 400 (Message ''Invalid credentials'')
      | Some u \<Rightarrow>
          (case lb_password b of
             JString p \<Rightarrow>
               if bcrypt_compare e p (user_password u)
               then json 200 (AuthBody (jwt_sign e (user_id u)) (public_view u))
               else json 400 (Message ''Invalid credentials'')
           | _ \<Rightarrow> json 500 (ErrorMessage (IllegalArguments (typeof (lb_password b)) ''string''))))"
  by (simp add: login_def bcryptjs_compare_def split: option.splits js_value.splits)

lemma login_rejected_string_password:
  assumes "User_findOne_email s (lb_email b1) = None"
    and "User_findOne_email s (lb_email b2) = Some u"
    and "lb_password b2 = JString p" and "\<not> bcrypt_compare e p (user_password u)"
  shows "login e s b1 = login e s b2"
  using assms by (simp add: login_cases)

lemma login_example_rejected:
  "login env0 (empty_store\<lparr>users := [alice]\<rparr>)
       \<lparr>lb_email = ''alice@x.com'', lb_password = JString ''wrong''\<rparr>
     = json 400 (Message ''Invalid credentials'')"
  by (simp add: login_cases User_findOne_email_def empty_store_def alice_def env0_def
      toy_compare_def toy_hash_def)

lemma login_example_success:
  "status (login env0 (empty_store\<lparr>users := [alice]\<rparr>)
       \<lparr>lb_email = ''alice@x.com'', lb_password = JString ''alice''\<rparr>) = 200"
  by (simp add: login_cases User_findOne_email_def empty_store_def alice_def env0_def
      toy_compare_def toy_hash_def json_def)

section \<open>Properties of the order routes\<close>

text \<open>
  C5. Whenever \<open>POST /api/orders\<close> answers 201, one order was appended to the
  collection, it is the order of the response, and its \<open>user\<close> reference is the
  \<open>_id\<close> of the authenticated requester, whatever \<open>user\<close> field the body carried.
\<close>

theorem create_order_stamps_requester:
  assumes "create_order e s req_user b = (r, s')" and "status r = 201"
  shows "\<exists>d. body r = OrderBody d \<and> orders s' = orders s @ [d] \<and>
             order_user d = user_id req_user"
  using assms
  by (auto simp: create_order_def Order_save_new_def json_def Let_def
           split: option.splits if_splits sum.splits)

theorem create_order_stamps_requester_witness:
  "ob_user order_body0 = Some (user_id bob) \<and>
   status (fst (create_order env0 (empty_store\<lparr>users := [alice, bob]\<rparr>) alice order_body0)) = 201 \<and>
   (\<exists>d. body (fst (create_order env0 (empty_store\<lparr>users := [alice, bob]\<rparr>) alice order_body0)) = OrderBody d \<and>
        orders (snd (create_order env0 (empty_store\<lparr>users := [alice, bob]\<rparr>) alice order_body0)) = [d] \<and>
        order_user d = user_id alice)"
proof -
  let ?s = "empty_store\<lparr>users := [alice, bob]\<rparr>"
  let ?c = "create_order env0 ?s alice order_body0"
  have a: "?c = (fst ?c, snd ?c)" by simp
  have b: "status (fst ?c) = 201"
    by (simp add: create_order_def Order_save_new_def validate_order_def order_body0_def
        cast_line_item_def addr0_def json_def Let_def)
  have c: "orders ?s = []" by (simp add: empty_store_def)
  have d: "ob_user order_body0 = Some (user_id bob)" by (simp add: order_body0_def bob_def)
  from create_order_stamps_requester [OF a b] b c d show ?thesis by simp
qed

text \<open>
  Behind the gate: an order created through the route belongs to the user that the
  bearer token resolves to.
\<close>

lemma auth_status: "auth e s header = Inl r \<Longrightarrow> status r = 401"
  by (auto simp: auth_def json_def Let_def split: option.splits if_splits)

lemma post_orders_owner:
  assumes "post_orders e s header b = (r, s')" and "status r = 201"
  shows "\<exists>u d. auth e s header = Inr u \<and> body r = OrderBody d \<and>
               orders s' = orders s @ [d] \<and> order_user d = user_id u"
proof (cases "auth e s header")
  case (Inl r0)
  with assms auth_status [OF Inl] show ?thesis by (simp add: post_orders_def)
next
  case (Inr u)
  with assms have "create_order e s u b = (r, s')" by (simp add: post_orders_def)
  with assms(2) Inr show ?thesis
    by (auto simp: create_order_def Order_save_new_def json_def Let_def
        split: option.splits if_splits sum.splits)
qed

section \<open>Properties of the dashboard: revenue\<close>

lemma foldl_add_sum_list:
  "foldl (\<lambda>sum d. sum + f d) a xs = (a::real) + sum_list (map f xs)"
  by (induction xs arbitrary: a) simp_all

lemma totalRevenue_sum_list:
  "totalRevenue s = sum_list (map totalAmount (filter (\<lambda>d. paymentStatus d = ''completed'') (orders s)))"
  by (simp add: totalRevenue_def Order_find_paymentStatus_def foldl_add_sum_list)

text \<open>
  C6. The revenue total of the dashboard is the sum of \<open>totalAmount\<close> over the orders
  whose \<open>paymentStatus\<close> is \<open>completed\<close>, and an order with any other
  \<open>paymentStatus\<close> contributes nothing: taking it out of the collection, wherever it
  stands, leaves the total as it is.
\<close>

theorem totalRevenue_completed_only:
  "totalRevenue s =
     (\<Sum>d\<leftarrow>filter (\<lambda>d. paymentStatus d = ''completed'') (orders s). totalAmount d) \<and>
   (\<forall>d xs ys. paymentStatus d \<noteq> ''completed'' \<longrightarrow>
      totalRevenue (s\<lparr>orders := xs @ d # ys\<rparr>) = totalRevenue (s\<lparr>orders := xs @ ys\<rparr>))"
proof (intro conjI allI impI)
  show "totalRevenue s =
      (\<Sum>d\<leftarrow>filter (\<lambda>d. paymentStatus d = ''completed'') (orders s). totalAmount d)"
    by (rule totalRevenue_sum_list)
next
  fix d :: order and xs ys :: "order list"
  assume other: "paymentStatus d \<noteq> ''completed''"
  then show "totalRevenue (s\<lparr>orders := xs @ d # ys\<rparr>) = totalRevenue (s\<lparr>orders := xs @ ys\<rparr>)"
    by (simp add: totalRevenue_sum_list)
qed

theorem totalRevenue_completed_only_witness:
  "paymentStatus (mk_order 2 1 [] 7 ''pending'') \<noteq> ''completed'' \<and>
   totalRevenue (empty_store\<lparr>orders := mixed_orders\<rparr>) = 30 \<and>
   totalRevenue (empty_store\<lparr>orders := [mk_order 1 1 [] 10 ''completed''] @ [mk_order 3 2 [] 20 ''completed'']\<rparr>) = 30"
proof -
  let ?d = "mk_order 2 1 [] 7 ''pending''"
  let ?xs = "[mk_order 1 1 [] 10 ''completed'']"
  let ?ys = "[mk_order 3 2 [] 20 ''completed'']"
  have a: "paymentStatus ?d \<noteq> ''completed''" by (simp add: mk_order_def)
  have b: "mixed_orders = ?xs @ ?d # ?ys" by (simp add: mixed_orders_def)
  from totalRevenue_completed_only [of "empty_store\<lparr>orders := mixed_orders\<rparr>"]
  have c: "totalRevenue (empty_store\<lparr>orders := mixed_orders\<rparr>) = 30"
    by (simp add: mixed_orders_def mk_order_def)
  from totalRevenue_completed_only [of empty_store] a
  have "totalRevenue (empty_store\<lparr>orders := ?xs @ ?d # ?ys\<rparr>) = totalRevenue (empty_store\<lparr>orders := ?xs @ ?ys\<rparr>)"
    by blast
  with a b c show ?thesis by simp
qed

section \<open>Properties of the order routes: reading an order\<close>

text \<open>
  C1. \<open>GET /api/orders/:id\<close> is to answer 404 when no order matches, 403 when an order
  matches and the requester is neither its owner nor an admin, and the order otherwise.
  In \<open>orphan_store\<close> the order 10 belongs to a user that is no longer stored. The
  requester \<open>bob\<close> is not an admin and not the owner, yet the answer is not 403: the
  populated \<open>order.user\<close> is \<open>null\<close>, reading its \<open>_id\<close> throws, and the answer is
  500.
\<close>

theorem get_order_deleted_owner:
  "Order_findById orphan_store 10 = Some (mk_order 10 1 [] 5 ''pending'') \<and>
   order_user (mk_order 10 1 [] 5 ''pending'') \<noteq> user_id bob \<and>
   \<not> user_isAdmin bob \<and>
   get_order orphan_store bob 10 = json 500 (ErrorMessage TypeError)"
  by (simp add: get_order_def Order_findById_def orphan_store_def empty_store_def mk_order_def
      bob_def populate_order_def populate_user_def User_findById_def)

text \<open>
  All outcomes of \<open>get_order\<close>. When the owner of the order resolves to a stored User,
  they are the three outcomes above.
\<close>

lemma get_order_cases:
  "get_order s req_user i =
     (case Order_findById s i of
        None \<Rightarrow> json 404 (Message ''Order not found'')
      | Some d \<Rightarrow>
          if user_isAdmin req_user then json 200 (PopulatedOrderBody (populate_order s d))
          else (case User_findById s (order_user d) of
                  None \<Rightarrow> json 500 (ErrorMessage TypeError)
                | Some owner \<Rightarrow>
                    if order_user d = user_id req_user
                    then json 200 (PopulatedOrderBody (populate_order s d))
                    else json 403 (Message ''Not authorized'')))"
  by (auto simp: get_order_def populate_order_def populate_user_def User_findById_def
      dest: findOne_Some split: option.splits)

text \<open>An admin reads the same order: the owner is not looked at.\<close>

lemma get_order_admin_example:
  "status (get_order orphan_store root 10) = 200"
  by (simp add: get_order_def Order_findById_def orphan_store_def empty_store_def mk_order_def
      root_def json_def)

section \<open>Properties of the newsletter routes\<close>

text \<open>
  The store keeps \<open>_id\<close> unique within a collection. The lemmas below assume it of the
  subscribers, and \<open>subscribe\<close> and \<open>unsubscribe\<close> keep it.
\<close>

lemma Subscriber_findOne_email_save_active:
  assumes "distinct (map subscriber_id (subscribers s))"
    and "Subscriber_findOne_email s email = Some d"
  shows "Subscriber_findOne_email (Subscriber_save_active s d a) email
           = Some (d\<lparr>subscriber_active := a\<rparr>)"
  using findOne_updateOne_key [of subscriber_id "subscribers s"
      "\<lambda>x. subscriber_email x = email" d "\<lambda>x. x\<lparr>subscriber_active := a\<rparr>"] assms
  by (simp add: Subscriber_findOne_email_def Subscriber_save_active_def)

lemma Subscriber_save_active_map:
  assumes "distinct (map subscriber_id (subscribers s))"
  shows "subscribers (Subscriber_save_active s d a)
           = map (\<lambda>x. if subscriber_id x = subscriber_id d then x\<lparr>subscriber_active := a\<rparr> else x)
               (subscribers s)"
  using updateOne_distinct_key [OF assms] by (simp add: Subscriber_save_active_def)

lemma Subscriber_save_active_idem:
  "Subscriber_save_active (Subscriber_save_active s d a) (d\<lparr>subscriber_active := a\<rparr>) a
     = Subscriber_save_active s d a"
  by (simp add: Subscriber_save_active_def updateOne_idem)

lemma Subscriber_save_active_ids:
  "map subscriber_id (subscribers (Subscriber_save_active s d a)) = map subscriber_id (subscribers s)"
  by (simp add: Subscriber_save_active_def map_key_updateOne)

text \<open>
  C10. For an email that has a subscriber record, an unsubscribe that follows an
  unsubscribe also answers 200 (not 404) and leaves the store exactly as the first one
  left it: the record is inactive and the collection holds the same records as before.
\<close>

theorem unsubscribe_idempotent:
  assumes "distinct (map subscriber_id (subscribers s))"
    and "Subscriber_findOne_email s email = Some d"
  shows "status (fst (unsubscribe s email)) = 200 \<and>
         status (fst (unsubscribe (snd (unsubscribe s email)) email)) = 200 \<and>
         snd (unsubscribe (snd (unsubscribe s email)) email) = snd (unsubscribe s email) \<and>
         Subscriber_findOne_email (snd (unsubscribe s email)) email
           = Some (d\<lparr>subscriber_active := False\<rparr>) \<and>
         map subscriber_id (subscribers (snd (unsubscribe s email))) = map subscriber_id (subscribers s)"
proof -
  let ?s1 = "Subscriber_save_active s d False"
  have first: "unsubscribe s email = (json 200 (Message ''Unsubscribed successfully''), ?s1)"
    using assms(2) by (simp add: unsubscribe_def)
  have found: "Subscriber_findOne_email ?s1 email = Some (d\<lparr>subscriber_active := False\<rparr>)"
    using assms by (rule Subscriber_findOne_email_save_active)
  then have second: "unsubscribe ?s1 email = (json 200 (Message ''Unsubscribed successfully''), ?s1)"
    by (simp add: unsubscribe_def Subscriber_save_active_idem)
  from first second found show ?thesis
    by (simp add: json_def Subscriber_save_active_ids)
qed

theorem unsubscribe_idempotent_witness:
  "distinct (map subscriber_id [sub_a, sub_b]) \<and>
   Subscriber_findOne_email (empty_store\<lparr>subscribers := [sub_a, sub_b]\<rparr>) ''a@x.com'' = Some sub_a \<and>
   status (fst (unsubscribe (snd (unsubscribe (empty_store\<lparr>subscribers := [sub_a, sub_b]\<rparr>) ''a@x.com'')) ''a@x.com'')) = 200 \<and>
   subscribers (snd (unsubscribe (snd (unsubscribe (empty_store\<lparr>subscribers := [sub_a, sub_b]\<rparr>) ''a@x.com'')) ''a@x.com''))
     = [sub_a\<lparr>subscriber_active := False\<rparr>, sub_b]"
proof -
  let ?s = "empty_store\<lparr>subscribers := [sub_a, sub_b]\<rparr>"
  have a: "distinct (map subscriber_id (subscribers ?s))" by (simp add: sub_a_def sub_b_def)
  have b: "Subscriber_findOne_email ?s ''a@x.com'' = Some sub_a"
    by (simp add: Subscriber_findOne_email_def sub_a_def)
  have c: "subscribers (snd (unsubscribe ?s ''a@x.com'')) = [sub_a\<lparr>subscriber_active := False\<rparr>, sub_b]"
    by (simp add: unsubscribe_def Subscriber_findOne_email_def Subscriber_save_active_def sub_a_def sub_b_def)
  from unsubscribe_idempotent [OF a b] a b c show ?thesis by simp
qed

text \<open>
  C8. For every email address (a non-empty string; the schema's \<open>required\<close> validator
  rejects the empty one): subscribing when a record with that email exists and is active
  fails with 400 \<open>Email already subscribed\<close> and changes nothing; subscribing when the
  record exists and is inactive sets that record active and leaves every other record
  and the number of records as they were; subscribing when no record exists appends one
  active record with that email under a fresh \<open>_id\<close> and answers 201; unsubscribing an
  email that has no record fails with 404 and changes nothing.
\<close>

theorem newsletter_cases:
  assumes "distinct (map subscriber_id (subscribers s))"
  shows "(\<forall>d. Subscriber_findOne_email s email = Some d \<and> subscriber_active d \<longrightarrow>
            subscribe e s email = (json 400 (Message ''Email already subscribed''), s)) \<and>
         (\<forall>d. Subscriber_findOne_email s email = Some d \<and> \<not> subscriber_active d \<longrightarrow>
            status (fst (subscribe e s email)) = 200 \<and>
            subscribers (snd (subscribe e s email))
              = map (\<lambda>x. if subscriber_id x = subscriber_id d then x\<lparr>subscriber_active := True\<rparr> else x)
                  (subscribers s) \<and>
            length (subscribers (snd (subscribe e s email))) = length (subscribers s) \<and>
            Subscriber_findOne_email (snd (subscribe e s email)) email
              = Some (d\<lparr>subscriber_active := True\<rparr>)) \<and>
         (Subscriber_findOne_email s email = None \<and> email \<noteq> '''' \<longrightarrow>
            (\<exists>d. subscribe e s email
                    = (json 201 (Message ''Subscribed successfully''),
                       s\<lparr>subscribers := subscribers s @ [d]\<rparr>) \<and>
                 subscriber_email d = email \<and> subscriber_active d \<and>
                 subscriber_id d \<notin> set (map subscriber_id (subscribers s)))) \<and>
         (Subscriber_findOne_email s email = None \<longrightarrow>
            unsubscribe s email = (json 404 (Message ''Subscription not found''), s))"
proof (intro conjI allI impI)
  fix d
  assume "Subscriber_findOne_email s email = Some d \<and> subscriber_active d"
  then show "subscribe e s email = (json 400 (Message ''Email already subscribed''), s)"
    by (simp add: subscribe_def)
next
  fix d
  assume h: "Subscriber_findOne_email s email = Some d \<and> \<not> subscriber_active d"
  then have sub: "subscribe e s email
      = (json 200 (Message ''Subscription reactivated successfully''), Subscriber_save_active s d True)"
    by (simp add: subscribe_def)
  show "status (fst (subscribe e s email)) = 200" by (simp add: sub json_def)
  show m: "subscribers (snd (subscribe e s email))
      = map (\<lambda>x. if subscriber_id x = subscriber_id d then x\<lparr>subscriber_active := True\<rparr> else x)
          (subscribers s)"
    by (simp add: sub Subscriber_save_active_map [OF assms])
  show "length (subscribers (snd (subscribe e s email))) = length (subscribers s)"
    by (simp add: m)
  show "Subscriber_findOne_email (snd (subscribe e s email)) email
      = Some (d\<lparr>subscriber_active := True\<rparr>)"
    using h by (simp add: sub Subscriber_findOne_email_save_active [OF assms])
next
  assume h: "Subscriber_findOne_email s email = None \<and> email \<noteq> ''''"
  let ?d = "\<lparr>subscriber_id = new_ObjectId (map subscriber_id (subscribers s)),
             subscriber_email = email, subscriber_active = True,
             subscriber_createdAt = now e\<rparr>"
  have "subscribe e s email
      = (json 201 (Message ''Subscribed successfully''), s\<lparr>subscribers := subscribers s @ [?d]\<rparr>)"
    using h by (simp add: subscribe_def Subscriber_save_new_def validate_subscriber_def)
  moreover have "subscriber_id ?d \<notin> set (map subscriber_id (subscribers s))"
    using new_ObjectId_fresh [of "map subscriber_id (subscribers s)"] by simp
  ultimately show "\<exists>d. subscribe e s email
          = (json 201 (Message ''Subscribed successfully''), s\<lparr>subscribers := subscribers s @ [d]\<rparr>) \<and>
        subscriber_email d = email \<and> subscriber_active d \<and>
        subscriber_id d \<notin> set (map subscriber_id (subscribers s))"
    by (intro exI [of _ ?d]) simp
next
  assume "Subscriber_findOne_email s email = None"
  then show "unsubscribe s email = (json 404 (Message ''Subscription not found''), s)"
    by (simp add: unsubscribe_def)
qed

theorem newsletter_cases_witness:
  "distinct (map subscriber_id (subscribers (empty_store\<lparr>subscribers := [sub_a, sub_b]\<rparr>))) \<and>
   Subscriber_findOne_email (empty_store\<lparr>subscribers := [sub_a, sub_b]\<rparr>) ''a@x.com'' = Some sub_a \<and>
   subscriber_active sub_a \<and>
   subscribe env0 (empty_store\<lparr>subscribers := [sub_a, sub_b]\<rparr>) ''a@x.com''
     = (json 400 (Message ''Email already subscribed''), empty_store\<lparr>subscribers := [sub_a, sub_b]\<rparr>) \<and>
   Subscriber_findOne_email (empty_store\<lparr>subscribers := [sub_a, sub_b]\<rparr>) ''b@x.com'' = Some sub_b \<and>
   \<not> subscriber_active sub_b \<and>
   subscribers (snd (subscribe env0 (empty_store\<lparr>subscribers := [sub_a, sub_b]\<rparr>) ''b@x.com''))
     = [sub_a, sub_b\<lparr>subscriber_active := True\<rparr>] \<and>
   Subscriber_findOne_email (empty_store\<lparr>subscribers := [sub_a, sub_b]\<rparr>) ''c@x.com'' = None \<and>
   ''c@x.com'' \<noteq> '''' \<and>
   status (fst (subscribe env0 (empty_store\<lparr>subscribers := [sub_a, sub_b]\<rparr>) ''c@x.com'')) = 201 \<and>
   length (subscribers (snd (subscribe env0 (empty_store\<lparr>subscribers := [sub_a, sub_b]\<rparr>) ''c@x.com''))) = 3 \<and>
   unsubscribe (empty_store\<lparr>subscribers := [sub_a, sub_b]\<rparr>) ''c@x.com''
     = (json 404 (Message ''Subscription not found''), empty_store\<lparr>subscribers := [sub_a, sub_b]\<rparr>)"
proof -
  let ?s = "empty_store\<lparr>subscribers := [sub_a, sub_b]\<rparr>"
  have dist: "distinct (map subscriber_id (subscribers ?s))" by (simp add: sub_a_def sub_b_def)
  have fa: "Subscriber_findOne_email ?s ''a@x.com'' = Some sub_a \<and> subscriber_active sub_a"
    by (simp add: Subscriber_findOne_email_def sub_a_def)
  have fb: "Subscriber_findOne_email ?s ''b@x.com'' = Some sub_b \<and> \<not> subscriber_active sub_b"
    by (simp add: Subscriber_findOne_email_def sub_a_def sub_b_def)
  have fc: "Subscriber_findOne_email ?s ''c@x.com'' = None \<and> ''c@x.com'' \<noteq> ''''"
    by (simp add: Subscriber_findOne_email_def sub_a_def sub_b_def)
  have ids: "subscriber_id sub_a \<noteq> subscriber_id sub_b" by (simp add: sub_a_def sub_b_def)
  note A = newsletter_cases [OF dist, of "''a@x.com''" env0]
  note B = newsletter_cases [OF dist, of "''b@x.com''" env0]
  note C = newsletter_cases [OF dist, of "''c@x.com''" env0]
  from A fa have 1: "subscribe env0 ?s ''a@x.com'' = (json 400 (Message ''Email already subscribed''), ?s)"
    by blast
  from B fb have "subscribers (snd (subscribe env0 ?s ''b@x.com''))
      = map (\<lambda>x. if subscriber_id x = subscriber_id sub_b then x\<lparr>subscriber_active := True\<rparr> else x)
          (subscribers ?s)"
    by blast
  with ids have 2: "subscribers (snd (subscribe env0 ?s ''b@x.com'')) = [sub_a, sub_b\<lparr>subscriber_active := True\<rparr>]"
    by simp
  from C fc obtain d where "subscribe env0 ?s ''c@x.com''
      = (json 201 (Message ''Subscribed successfully''), ?s\<lparr>subscribers := subscribers ?s @ [d]\<rparr>)"
    by blast
  then have 3: "status (fst (subscribe env0 ?s ''c@x.com'')) = 201 \<and>
      length (subscribers (snd (subscribe env0 ?s ''c@x.com''))) = 3"
    by (simp add: json_def)
  from C [THEN conjunct2, THEN conjunct2, THEN conjunct2] fc
  have 4: "unsubscribe ?s ''c@x.com'' = (json 404 (Message ''Subscription not found''), ?s)"
    by simp
  from dist fa fb fc 1 2 3 4 show ?thesis by simp
qed

lemma subscribe_keeps_distinct_ids:
  assumes "distinct (map subscriber_id (subscribers s))"
  shows "distinct (map subscriber_id (subscribers (snd (subscribe e s email))))"
proof -
  have "new_ObjectId (map subscriber_id (subscribers s)) \<notin> subscriber_id ` set (subscribers s)"
    using new_ObjectId_fresh [of "map subscriber_id (subscribers s)"] by simp
  with assms show ?thesis
    by (auto simp: subscribe_def Subscriber_save_new_def Subscriber_save_active_ids Let_def
        split: option.splits)
qed

lemma unsubscribe_keeps_distinct_ids:
  assumes "distinct (map subscriber_id (subscribers s))"
  shows "distinct (map subscriber_id (subscribers (snd (unsubscribe s email))))"
  using assms by (auto simp: unsubscribe_def Subscriber_save_active_ids split: option.splits)

section \<open>Properties of registration\<close>

text \<open>
  A registration with an email that no stored User has need not store a User: with an
  empty name the schema's \<open>required\<close> validator makes \<open>save()\<close> throw, the answer is
  400 and the collection stays empty.
\<close>

theorem register_empty_name_counterexample:
  "User_findOne_email empty_store ''a@x.com'' = None \<and>
   register env0 empty_store
       \<lparr>rb_name = '''', rb_email = ''a@x.com'', rb_password = JString ''pw''\<rparr>
     = (json 400 (ErrorMessage ValidationError), empty_store) \<and>
   users (snd (register env0 empty_store
       \<lparr>rb_name = '''', rb_email = ''a@x.com'', rb_password = JString ''pw''\<rparr>)) = []"
  by (simp add: register_def User_findOne_email_def empty_store_def User_save_new_def
      validate_user_def bcryptjs_hash_def env0_def toy_hash_def Let_def)

text \<open>
  C4, amended. For every registration request, one of four things happens.
  If a User with the given email exists, the answer is 400 \<open>User already exists\<close>, the
  store is unchanged and that User is still the one found under the email.
  Otherwise, if the password is missing or not a string, \<open>bcrypt.hash\<close> throws, the
  answer is 400 with the message of that error and the store is unchanged.
  Otherwise, if the name, the email and the hash of the password are not empty (a bcrypt
  hash never is), one User is appended under a fresh \<open>_id\<close>, with the given name and
  email, with the salted hash of the raw password as its password and with the admin
  flag off; the answer is 201 with a token signed for that \<open>_id\<close> and the public view
  of the User, whose four fields are id, name, email and admin flag and which has no
  field for the password.
  Otherwise (the name, the email or the hash is empty) the answer is 400 with a
  validation error and the store is unchanged.
\<close>

theorem register_cases:
  "(\<forall>u. User_findOne_email s (rb_email b) = Some u \<longrightarrow>
      register e s b = (json 400 (Message ''User already exists''), s) \<and>
      User_findOne_email (snd (register e s b)) (rb_email b) = Some u) \<and>
   (User_findOne_email s (rb_email b) = None \<and> typeof (rb_password b) \<noteq> ''string'' \<longrightarrow>
      register e s b
        = (json 400 (ErrorMessage (IllegalArguments (typeof (rb_password b)) ''string'')), s)) \<and>
   (\<forall>p. User_findOne_email s (rb_email b) = None \<and> rb_password b = JString p \<and>
        rb_name b \<noteq> '''' \<and> rb_email b \<noteq> '''' \<and> bcrypt_hash e p (bcrypt_genSalt e) \<noteq> '''' \<longrightarrow>
      (\<exists>u. register e s b
              = (json 201 (AuthBody (jwt_sign e (user_id u)) (public_view u)),
                 s\<lparr>users := users s @ [u]\<rparr>) \<and>
           user_name u = rb_name b \<and> user_email u = rb_email b \<and>
           user_password u = bcrypt_hash e p (bcrypt_genSalt e) \<and>
           \<not> user_isAdmin u \<and> user_id u \<notin> set (map user_id (users s)) \<and>
           public_view u = \<lparr>pu_id = user_id u, pu_name = rb_name b, pu_email = rb_email b,
                            pu_isAdmin = False\<rparr>)) \<and>
   (\<forall>p. User_findOne_email s (rb_email b) = None \<and> rb_password b = JString p \<and>
        (rb_name b = '''' \<or> rb_email b = '''' \<or> bcrypt_hash e p (bcrypt_genSalt e) = '''') \<longrightarrow>
      register e s b = (json 400 (ErrorMessage ValidationError), s))"
proof (intro conjI allI impI)
  fix u
  assume h: "User_findOne_email s (rb_email b) = Some u"
  then show r: "register e s b = (json 400 (Message ''User already exists''), s)"
    by (simp add: register_def)
  show "User_findOne_email (snd (register e s b)) (rb_email b) = Some u"
    by (simp add: r h)
next
  assume h: "User_findOne_email s (rb_email b) = None \<and> typeof (rb_password b) \<noteq> ''string''"
  then show "register e s b
      = (json 400 (ErrorMessage (IllegalArguments (typeof (rb_password b)) ''string'')), s)"
    by (cases "rb_password b") (simp_all add: register_def bcryptjs_hash_def)
next
  fix p
  assume h: "User_findOne_email s (rb_email b) = None \<and> rb_password b = JString p \<and>
    rb_name b \<noteq> '''' \<and> rb_email b \<noteq> '''' \<and> bcrypt_hash e p (bcrypt_genSalt e) \<noteq> ''''"
  let ?u = "\<lparr>user_id = new_ObjectId (map user_id (users s)), user_name = rb_name b,
             user_email = rb_email b,
             user_password = bcrypt_hash e p (bcrypt_genSalt e),
             user_isAdmin = False, user_createdAt = now e\<rparr>"
  have "register e s b
      = (json 201 (AuthBody (jwt_sign e (user_id ?u)) (public_view ?u)), s\<lparr>users := users s @ [?u]\<rparr>)"
    using h
    by (simp add: register_def bcryptjs_hash_def User_save_new_def validate_user_def Let_def)
  moreover have "user_id ?u \<notin> set (map user_id (users s))"
    using new_ObjectId_fresh [of "map user_id (users s)"] by simp
  ultimately show "\<exists>u. register e s b
              = (json 201 (AuthBody (jwt_sign e (user_id u)) (public_view u)),
                 s\<lparr>users := users s @ [u]\<rparr>) \<and>
           user_name u = rb_name b \<and> user_email u = rb_email b \<and>
           user_password u = bcrypt_hash e p (bcrypt_genSalt e) \<and>
           \<not> user_isAdmin u \<and> user_id u \<notin> set (map user_id (users s)) \<and>
           public_view u = \<lparr>pu_id = user_id u, pu_name = rb_name b, pu_email = rb_email b,
                            pu_isAdmin = False\<rparr>"
    by (intro exI [of _ ?u]) (simp add: public_view_def)
next
  fix p
  assume h: "User_findOne_email s (rb_email b) = None \<and> rb_password b = JString p \<and>
    (rb_name b = '''' \<or> rb_email b = '''' \<or> bcrypt_hash e p (bcrypt_genSalt e) = '''')"
  then show "register e s b = (json 400 (ErrorMessage ValidationError), s)"
    by (auto simp: register_def bcryptjs_hash_def User_save_new_def validate_user_def Let_def)
qed

theorem register_cases_witness:
  "User_findOne_email (empty_store\<lparr>users := [alice]\<rparr>) ''alice@x.com'' = Some alice \<and>
   register env0 (empty_store\<lparr>users := [alice]\<rparr>)
       \<lparr>rb_name = ''Eve'', rb_email = ''alice@x.com'', rb_password = JString ''pw''\<rparr>
     = (json 400 (Message ''User already exists''), empty_store\<lparr>users := [alice]\<rparr>) \<and>
   User_findOne_email (empty_store\<lparr>users := [alice]\<rparr>) ''carol@x.com'' = None \<and>
   typeof JUndefined \<noteq> ''string'' \<and>
   register env0 (empty_store\<lparr>users := [alice]\<rparr>)
       \<lparr>rb_name = ''Carol'', rb_email = ''carol@x.com'', rb_password = JUndefined\<rparr>
     = (json 400 (ErrorMessage (IllegalArguments ''undefined'' ''string'')),
        empty_store\<lparr>users := [alice]\<rparr>) \<and>
   (\<exists>u. register env0 (empty_store\<lparr>users := [alice]\<rparr>)
            \<lparr>rb_name = ''Carol'', rb_email = ''carol@x.com'', rb_password = JString ''pw''\<rparr>
          = (json 201 (AuthBody (jwt_sign env0 (user_id u)) (public_view u)),
             empty_store\<lparr>users := [alice, u]\<rparr>) \<and>
        user_password u = ''s1$wp'' \<and> user_id u \<noteq> user_id alice) \<and>
   register env0 (empty_store\<lparr>users := [alice]\<rparr>)
       \<lparr>rb_name = '''', rb_email = ''carol@x.com'', rb_password = JString ''pw''\<rparr>
     = (json 400 (ErrorMessage ValidationError), empty_store\<lparr>users := [alice]\<rparr>)"
proof -
  let ?s = "empty_store\<lparr>users := [alice]\<rparr>"
  let ?dup = "\<lparr>rb_name = ''Eve'', rb_email = ''alice@x.com'', rb_password = JString ''pw''\<rparr>"
  let ?nopw = "\<lparr>rb_name = ''Carol'', rb_email = ''carol@x.com'', rb_password = JUndefined\<rparr>"
  let ?new = "\<lparr>rb_name = ''Carol'', rb_email = ''carol@x.com'', rb_password = JString ''pw''\<rparr>"
  let ?bad = "\<lparr>rb_name = '''', rb_email = ''carol@x.com'', rb_password = JString ''pw''\<rparr>"
  have fa: "User_findOne_email ?s (rb_email ?dup) = Some alice"
    by (simp add: User_findOne_email_def alice_def)
  have fc: "User_findOne_email ?s ''carol@x.com'' = None"
    by (simp add: User_findOne_email_def alice_def)
  have hash: "bcrypt_hash env0 ''pw'' (bcrypt_genSalt env0) = ''s1$wp''"
    by (simp add: env0_def toy_hash_def)
  from register_cases [of ?s ?dup env0, THEN conjunct1, rule_format, OF fa]
  have 1: "register env0 ?s ?dup = (json 400 (Message ''User already exists''), ?s)"
    by simp
  have "User_findOne_email ?s (rb_email ?nopw) = None \<and> typeof (rb_password ?nopw) \<noteq> ''string''"
    using fc by simp
  from register_cases [of ?s ?nopw env0, THEN conjunct2, THEN conjunct1, rule_format, OF this]
  have 2: "register env0 ?s ?nopw
      = (json 400 (ErrorMessage (IllegalArguments ''undefined'' ''string'')), ?s)"
    by simp
  have "User_findOne_email ?s (rb_email ?new) = None \<and> rb_password ?new = JString ''pw'' \<and>
      rb_name ?new \<noteq> '''' \<and> rb_email ?new \<noteq> '''' \<and>
      bcrypt_hash env0 ''pw'' (bcrypt_genSalt env0) \<noteq> ''''"
    using fc hash by simp
  from register_cases [of ?s ?new env0, THEN conjunct2, THEN conjunct2, THEN conjunct1,
      rule_format, OF this]
  obtain u where u: "register env0 ?s ?new
        = (json 201 (AuthBody (jwt_sign env0 (user_id u)) (public_view u)), ?s\<lparr>users := users ?s @ [u]\<rparr>)"
      "user_password u = bcrypt_hash env0 ''pw'' (bcrypt_genSalt env0)"
      "user_id u \<notin> set (map user_id (users ?s))"
    by blast
  have 3: "\<exists>u. register env0 ?s ?new
          = (json 201 (AuthBody (jwt_sign env0 (user_id u)) (public_view u)),
             empty_store\<lparr>users := [alice, u]\<rparr>) \<and>
        user_password u = ''s1$wp'' \<and> user_id u \<noteq> user_id alice"
    using u hash by (intro exI [of _ u]) simp
  have "User_findOne_email ?s (rb_email ?bad) = None \<and> rb_password ?bad = JString ''pw'' \<and>
      (rb_name ?bad = '''' \<or> rb_email ?bad = '''' \<or>
       bcrypt_hash env0 ''pw'' (bcrypt_genSalt env0) = '''')"
    using fc by simp
  from register_cases [of ?s ?bad env0, THEN conjunct2, THEN conjunct2, THEN conjunct2,
      rule_format, OF this]
  have 4: "register env0 ?s ?bad = (json 400 (ErrorMessage ValidationError), ?s)" .
  from fa fc 1 2 3 4 show ?thesis by simp
qed

section \<open>Properties of the dashboard: popular products\<close>

lemma sum_list_if_filter:
  "(\<Sum>x\<leftarrow>xs. if P x then f x else (0::real)) = sum_list (map f (filter P xs))"
  by (induction xs) simp_all

lemma ordered_quantity_unwind:
  "ordered_quantity s p
     = sum_list (map li_quantity (filter (\<lambda>li. li_product li = p) (unwind_products (orders s))))"
proof -
  have "(\<Sum>d\<leftarrow>ds. \<Sum>li\<leftarrow>order_products d. if li_product li = p then li_quantity li else 0)
      = sum_list (map li_quantity (filter (\<lambda>li. li_product li = p) (concat (map order_products ds))))"
    for ds :: "order list"
    by (induction ds) (simp_all add: sum_list_if_filter)
  then show ?thesis by (simp add: ordered_quantity_def unwind_products_def)
qed

lemma group_products_ids: "map g_id (group_products items) = remdups (map li_product items)"
  by (simp add: group_products_def comp_def)

lemma group_products_count:
  "g \<in> set (group_products items) \<Longrightarrow>
   g_count g = sum_list (map li_quantity (filter (\<lambda>li. li_product li = g_id g) items))"
  by (auto simp: group_products_def)

lemma group_products_mem:
  "p \<in> li_product ` set items \<Longrightarrow> \<exists>g\<in>set (group_products items). g_id g = p"
proof -
  assume "p \<in> li_product ` set items"
  then have "p \<in> set (map g_id (group_products items))"
    by (simp add: group_products_ids)
  then show ?thesis by auto
qed

lemma sort_count_desc_sorted:
  "sorted_wrt (\<lambda>a b. g_count b \<le> g_count a) (sort_count_desc gs)"
proof -
  have "sorted (map (\<lambda>g. - g_count g) (sort_key (\<lambda>g. - g_count g) gs))"
    by (rule sorted_sort_key)
  then show ?thesis by (simp add: sort_count_desc_def sorted_wrt_map sorted_wrt_iff_nth_less)
qed

lemma mset_sort_count_desc: "mset (sort_count_desc gs) = mset gs"
  by (simp add: sort_count_desc_def)

lemma popularProducts_ranked:
  assumes perm: "mset (engine_order (group_products (unwind_products (orders s))))
                 = mset (group_products (unwind_products (orders s)))"
  shows "length (popularProducts engine_order s)
           = min 5 (card (li_product ` set (unwind_products (orders s))))"
    and "sorted_wrt (\<lambda>a b. g_count b \<le> g_count a) (popularProducts engine_order s)"
    and "distinct (map g_id (popularProducts engine_order s))"
    and "\<And>g. g \<in> set (popularProducts engine_order s) \<Longrightarrow>
           g_count g = ordered_quantity s (g_id g) \<and>
           g_id g \<in> li_product ` set (unwind_products (orders s))"
    and "\<And>p g. p \<in> li_product ` set (unwind_products (orders s)) \<Longrightarrow>
           p \<notin> g_id ` set (popularProducts engine_order s) \<Longrightarrow>
           g \<in> set (popularProducts engine_order s) \<Longrightarrow>
           length (popularProducts engine_order s) = 5 \<and> ordered_quantity s p \<le> g_count g"
proof -
  let ?items = "unwind_products (orders s)"
  let ?G = "group_products ?items"
  let ?L = "sort_count_desc (engine_order ?G)"
  let ?r = "popularProducts engine_order s"
  have r: "?r = take 5 ?L" by (simp add: popularProducts_def)
  have msetL: "mset ?L = mset ?G" by (simp add: mset_sort_count_desc perm)
  then have setL: "set ?L = set ?G" by (rule mset_eq_setD)
  have "mset (map g_id ?L) = mset (map g_id ?G)" using msetL by simp
  then have "distinct (map g_id ?L) \<longleftrightarrow> distinct (map g_id ?G)"
    by (rule mset_eq_imp_distinct_iff)
  then have distL: "distinct (map g_id ?L)" by (simp add: group_products_ids)
  have "length ?L = length ?G" using msetL by (rule mset_eq_length)
  also have "\<dots> = length (map g_id ?G)" by simp
  also have "\<dots> = card (li_product ` set ?items)"
    by (simp only: group_products_ids length_remdups_card_conv set_map)
  finally have lenL: "length ?L = card (li_product ` set ?items)" .
  show "length ?r = min 5 (card (li_product ` set ?items))"
    by (simp add: r lenL min.commute)
  have sortedL: "sorted_wrt (\<lambda>a b. g_count b \<le> g_count a) ?L"
    by (rule sort_count_desc_sorted)
  then have "sorted_wrt (\<lambda>a b. g_count b \<le> g_count a) (take 5 ?L @ drop 5 ?L)" by simp
  then have split: "sorted_wrt (\<lambda>a b. g_count b \<le> g_count a) (take 5 ?L)"
      "\<forall>x\<in>set (take 5 ?L). \<forall>y\<in>set (drop 5 ?L). g_count y \<le> g_count x"
    unfolding sorted_wrt_append by blast+
  show "sorted_wrt (\<lambda>a b. g_count b \<le> g_count a) ?r" by (simp add: r split(1))
  show "distinct (map g_id ?r)"
    using distL by (simp add: r take_map [symmetric])
  show "g_count g = ordered_quantity s (g_id g) \<and> g_id g \<in> li_product ` set ?items"
    if "g \<in> set ?r" for g
  proof -
    from that have "g \<in> set ?L" by (auto simp: r dest: in_set_takeD)
    then have g: "g \<in> set ?G" by (simp add: setL)
    then have "g_id g \<in> set (map g_id ?G)" by simp
    then have "g_id g \<in> li_product ` set ?items" by (simp add: group_products_ids)
    with group_products_count [OF g] show ?thesis by (simp add: ordered_quantity_unwind)
  qed
  show "length ?r = 5 \<and> ordered_quantity s p \<le> g_count g"
    if p: "p \<in> li_product ` set ?items" and out: "p \<notin> g_id ` set ?r" and g: "g \<in> set ?r"
    for p g
  proof -
    from group_products_mem [OF p] obtain gp where gp: "gp \<in> set ?G" "g_id gp = p" by blast
    then have "gp \<in> set (take 5 ?L @ drop 5 ?L)" by (simp add: setL)
    moreover from out gp(2) have "gp \<notin> set (take 5 ?L)" by (auto simp: r)
    ultimately have tail: "gp \<in> set (drop 5 ?L)" by (simp only: set_append Un_iff) simp
    then have "drop 5 ?L \<noteq> []" by auto
    then have len: "length ?r = 5" by (simp add: r)
    from split(2) g tail have "g_count gp \<le> g_count g" by (simp add: r)
    with group_products_count [OF gp(1)] gp(2) len show ?thesis
      by (simp add: ordered_quantity_unwind)
  qed
qed

text \<open>
  The pipeline does not fix the ranking of products with equal cumulative quantity. In
  \<open>tie_store\<close> the products 1 and 2 both have quantity 5; two orders in which the store
  may hand on the two groups give two different rankings for the same collection.
\<close>

theorem popularProducts_tie_counterexample:
  "mset (id (group_products (unwind_products (orders tie_store))))
     = mset (group_products (unwind_products (orders tie_store))) \<and>
   mset (rev (group_products (unwind_products (orders tie_store))))
     = mset (group_products (unwind_products (orders tie_store))) \<and>
   popularProducts id tie_store = [\<lparr>g_id = 2, g_count = 5\<rparr>, \<lparr>g_id = 1, g_count = 5\<rparr>] \<and>
   popularProducts rev tie_store = [\<lparr>g_id = 1, g_count = 5\<rparr>, \<lparr>g_id = 2, g_count = 5\<rparr>] \<and>
   popularProducts id tie_store \<noteq> popularProducts rev tie_store"
  by (simp add: popularProducts_def sort_count_desc_def group_products_def unwind_products_def
      tie_store_def empty_store_def mk_order_def item_def)

text \<open>
  C7, amended. Whatever order the store hands the groups on in, the popular products
  are at most five (five, or all ordered products if there are fewer), no product is
  listed twice, they are listed in descending order of count, the count of each is its
  cumulative ordered quantity over every line item of every order, whatever the status
  of the order, and a product that was ordered but is not listed has a cumulative
  quantity no greater than that of any listed product. The order among products of
  equal cumulative quantity is the one the store returns; the code does not fix it.
\<close>

theorem popularProducts_top_five:
  assumes "mset (engine_order (group_products (unwind_products (orders s))))
           = mset (group_products (unwind_products (orders s)))"
  shows "length (popularProducts engine_order s) \<le> 5 \<and>
         length (populatedPopularProducts engine_order s) \<le> 5 \<and>
         length (popularProducts engine_order s)
           = min 5 (card (li_product ` set (unwind_products (orders s)))) \<and>
         sorted_wrt (\<lambda>a b. g_count b \<le> g_count a) (popularProducts engine_order s) \<and>
         distinct (map g_id (popularProducts engine_order s)) \<and>
         (\<forall>g\<in>set (popularProducts engine_order s).
            g_count g = ordered_quantity s (g_id g) \<and>
            g_id g \<in> li_product ` set (unwind_products (orders s))) \<and>
         (\<forall>p\<in>li_product ` set (unwind_products (orders s)).
            p \<notin> g_id ` set (popularProducts engine_order s) \<longrightarrow>
            length (popularProducts engine_order s) = 5 \<and>
            (\<forall>g\<in>set (popularProducts engine_order s). ordered_quantity s p \<le> g_count g))"
proof -
  note R = popularProducts_ranked [of engine_order s, OF assms]
  have len: "length (popularProducts engine_order s) \<le> 5" by (simp add: R(1))
  have top: "length (popularProducts engine_order s) = 5 \<and>
      (\<forall>g\<in>set (popularProducts engine_order s). ordered_quantity s p \<le> g_count g)"
    if p: "p \<in> li_product ` set (unwind_products (orders s))"
      and out: "p \<notin> g_id ` set (popularProducts engine_order s)" for p
  proof (cases "popularProducts engine_order s")
    case Nil
    from p have "0 < card (li_product ` set (unwind_products (orders s)))"
      by (auto simp: card_gt_0_iff)
    with R(1) Nil show ?thesis by simp
  next
    case (Cons g gs)
    then have "g \<in> set (popularProducts engine_order s)" by simp
    from R(5) [OF p out this] R(5) [OF p out] show ?thesis by blast
  qed
  from len R(1,2,3) R(4) top show ?thesis
    by (simp add: populatedPopularProducts_def)
qed

theorem popularProducts_top_five_witness:
  "mset (rev (group_products (unwind_products (orders busy_store))))
     = mset (group_products (unwind_products (orders busy_store))) \<and>
   popularProducts rev busy_store
     = [\<lparr>g_id = 6, g_count = 6\<rparr>, \<lparr>g_id = 5, g_count = 5\<rparr>, \<lparr>g_id = 4, g_count = 4\<rparr>,
        \<lparr>g_id = 2, g_count = 3\<rparr>, \<lparr>g_id = 3, g_count = 3\<rparr>] \<and>
   1 \<in> li_product ` set (unwind_products (orders busy_store)) \<and>
   1 \<notin> g_id ` set (popularProducts rev busy_store) \<and>
   ordered_quantity busy_store 1 \<le> 3 \<and>
   ordered_quantity busy_store 2 = 3"
proof -
  let ?G = "group_products (unwind_products (orders busy_store))"
  let ?r = "popularProducts rev busy_store"
  have perm: "mset (rev ?G) = mset ?G" by simp
  have r: "?r = [\<lparr>g_id = 6, g_count = 6\<rparr>, \<lparr>g_id = 5, g_count = 5\<rparr>, \<lparr>g_id = 4, g_count = 4\<rparr>,
        \<lparr>g_id = 2, g_count = 3\<rparr>, \<lparr>g_id = 3, g_count = 3\<rparr>]"
    by (simp add: popularProducts_def sort_count_desc_def group_products_def unwind_products_def
        busy_store_def empty_store_def mk_order_def item_def)
  have p: "1 \<in> li_product ` set (unwind_products (orders busy_store))"
    by (simp add: unwind_products_def busy_store_def empty_store_def mk_order_def item_def)
  have out: "1 \<notin> g_id ` set ?r" by (simp add: r)
  note T = popularProducts_top_five [of rev busy_store, OF perm]
  from T have "\<forall>g\<in>set ?r. g_count g = ordered_quantity busy_store (g_id g)" by blast
  then have two: "ordered_quantity busy_store 2 = 3" by (simp add: r)
  from T p out have "\<forall>g\<in>set ?r. ordered_quantity busy_store 1 \<le> g_count g" by blast
  then have one: "ordered_quantity busy_store 1 \<le> 3" by (simp add: r)
  from perm r p out one two show ?thesis by simp
qed

end
